theory Spec2Isabelle
  imports Complex_Main "HOL-Library.Word"
begin

section \<open>The volume decision engine of AdaptiveVolumeControl\<close>

text \<open>
  A shallow embedding of \<^verbatim>\<open>AdaptiveVolumeControl.h\<close> and
  \<^verbatim>\<open>AdaptiveVolumeControl.cpp\<close>.

  \<^item> A C++ \<^verbatim>\<open>int\<close> is a 32-bit word, read as a signed value with \<open>sint\<close>;
    \<open>-\<close> on words wraps around.
  \<^item> A C++ \<^verbatim>\<open>float\<close> is a real number. The conversion of an \<^verbatim>\<open>int\<close> to \<^verbatim>\<open>float\<close>
    rounds to the nearest binary32 value, ties to even (\<open>int_to_float\<close>). The
    multiplications and additions of the target computation are exact: their rounding
    is left out. The smoothing step is given both in exact arithmetic and in binary32.
  \<^item> A time point of the system clock is a real number of seconds. Each call that reads
    the clock takes the value read as its argument \<open>now\<close>.
  \<^item> The member variables are the fields of the record \<open>avc\<close>; a member function that
    mutates the object takes the record and returns the new one.
  \<^item> Writes to \<^verbatim>\<open>std::cout\<close> and the 200 ms sleep of the smoothing loop are left out:
    they touch no member variable.
\<close>

subsection \<open>Types and constants of the header\<close>

type_synonym cint = "32 word"

datatype Mode = ECO | COMFORT | SPORTS

datatype VolumeControlType = ADAPTIVE | MANUAL

record avc =
  speed :: cint
  previousSpeed :: cint
  cabinNoise :: cint
  reverseGear :: bool
  hornActive :: bool
  navSpeaking :: bool
  mode :: Mode
  controlType :: VolumeControlType
  manualVolume :: cint
  targetVolume :: real
  currentVolume :: real
  hornDuckStartTime :: real
  hornDuckActive :: bool

definition DEFAULT_VOLUME :: real where
  "DEFAULT_VOLUME = 25"

definition MAX_VOLUME :: real where
  "MAX_VOLUME = 100"

definition MAX_ADAPTIVE_VOLUME :: real where
  "MAX_ADAPTIVE_VOLUME = 80"

definition MIN_VOLUME :: real where
  "MIN_VOLUME = 0"

definition SMOOTH_FACTOR :: real where
  "SMOOTH_FACTOR = 0.3"

definition HORN_DUCK_MULTIPLIER :: real where
  "HORN_DUCK_MULTIPLIER = 0.6"

definition HORN_DUCK_DURATION :: real where
  "HORN_DUCK_DURATION = 0.5"

subsection \<open>Conversion of an int to float\<close>

text \<open>
  A binary32 value has a significand of 24 bits. An \<^verbatim>\<open>int\<close> of magnitude \<open>a\<close> below
  \<open>2 ^ 24\<close> converts exactly; a larger one loses its \<open>floatShift a\<close> lowest bits, rounded
  to nearest, ties to the even significand. The magnitude of a 32-bit \<^verbatim>\<open>int\<close> is at most
  \<open>2 ^ 31\<close>, so at most 8 bits are lost.
\<close>

definition floatShift :: "int \<Rightarrow> nat" where
  "floatShift a =
     (if a < 2 ^ 24 then 0 else if a < 2 ^ 25 then 1 else if a < 2 ^ 26 then 2
      else if a < 2 ^ 27 then 3 else if a < 2 ^ 28 then 4 else if a < 2 ^ 29 then 5
      else if a < 2 ^ 30 then 6 else if a < 2 ^ 31 then 7 else 8)"

definition roundHalfEven :: "int \<Rightarrow> nat \<Rightarrow> int" where
  "roundHalfEven a sh =
     (let q = a div 2 ^ sh; r = a mod 2 ^ sh
      in (if 2 * r < 2 ^ sh then q
          else if 2 ^ sh < 2 * r then q + 1
          else if even q then q else q + 1) * 2 ^ sh)"

definition int_to_float :: "int \<Rightarrow> real" where
  "int_to_float x = real_of_int (sgn x * roundHalfEven \<bar>x\<bar> (floatShift \<bar>x\<bar>))"

subsection \<open>The member functions\<close>

text \<open>The constructor (lines 25-31); \<open>now\<close> is the clock value it reads.\<close>

definition AdaptiveVolumeControl :: "real \<Rightarrow> avc" where
  "AdaptiveVolumeControl now =
     \<lparr> speed = 0, previousSpeed = 0, cabinNoise = 30,
       reverseGear = False, hornActive = False, navSpeaking = False,
       mode = COMFORT, controlType = ADAPTIVE, manualVolume = 25,
       targetVolume = DEFAULT_VOLUME, currentVolume = DEFAULT_VOLUME,
       hornDuckStartTime = now, hornDuckActive = False \<rparr>"

text \<open>
  \<^verbatim>\<open>handleHornDucking\<close> (lines 73-94). The second branch tests the member
  \<open>hornActive\<close>, as the source does.
\<close>

definition handleHornDucking :: "real \<Rightarrow> bool \<Rightarrow> avc \<Rightarrow> avc" where
  "handleHornDucking now newHornActive s =
     (if newHornActive then
        s\<lparr>hornDuckActive := True, hornDuckStartTime := now\<rparr>
      else if hornActive s then
        s\<lparr>hornDuckStartTime := now, hornDuckActive := True\<rparr>
      else if hornDuckActive s then
        (let elapsed = now - hornDuckStartTime s
         in if elapsed \<ge> HORN_DUCK_DURATION then s\<lparr>hornDuckActive := False\<rparr> else s)
      else s)"

text \<open>\<^verbatim>\<open>handleNavigationDucking\<close> (lines 100-104).\<close>

definition handleNavigationDucking :: "bool \<Rightarrow> avc \<Rightarrow> avc" where
  "handleNavigationDucking newNavSpeaking s = s\<lparr>navSpeaking := newNavSpeaking\<rparr>"

text \<open>
  \<^verbatim>\<open>applyVolumeModifiers\<close> (lines 111-147): \<open>b1\<close> to \<open>b6\<close> are the successive values
  of the local \<^verbatim>\<open>baseVolume\<close>.
\<close>

definition applyVolumeModifiers :: "avc \<Rightarrow> real \<Rightarrow> real" where
  "applyVolumeModifiers s baseVolume =
     (let b1 = (if hornDuckActive s then baseVolume * HORN_DUCK_MULTIPLIER else baseVolume);
          b2 = (if navSpeaking s then b1 * 0.5 else b1);
          b3 = (if reverseGear s then b2 * 0.25 else b2);
          b4 = (if \<not> reverseGear s then
                  (let speedDiff = previousSpeed s - speed s
                   in if sint speedDiff > 10 then b3 * 0.5
                      else if sint (speed s) < sint (previousSpeed s) then b3 * 0.9
                      else b3)
                else b3);
          b5 = (if b4 < MIN_VOLUME then MIN_VOLUME else b4);
          b6 = (if b5 > MAX_ADAPTIVE_VOLUME then MAX_ADAPTIVE_VOLUME else b5)
      in b6)"

text \<open>\<^verbatim>\<open>calculateTargetVolume\<close> (lines 152-173).\<close>

definition calculateTargetVolume :: "avc \<Rightarrow> avc" where
  "calculateTargetVolume s =
     (if controlType s = MANUAL then
        s\<lparr>targetVolume := min (int_to_float (sint (manualVolume s))) MAX_VOLUME\<rparr>
      else
        (let v0 = (25 :: real);
             v1 = (if sint (speed s) > 70 then v0 + 15
                   else if sint (speed s) > 30 then v0 + 10
                   else if sint (speed s) > 0 then v0 + 5
                   else v0);
             v2 = v1 + int_to_float (sint (cabinNoise s)) * 0.2;
             v3 = (case mode s of ECO \<Rightarrow> v2 * 0.8 | COMFORT \<Rightarrow> v2 | SPORTS \<Rightarrow> v2 * 1.2)
         in s\<lparr>targetVolume := applyVolumeModifiers s v3\<rparr>))"

text \<open>\<^verbatim>\<open>update\<close> (lines 44-67); \<open>now\<close> is the clock value read by \<^verbatim>\<open>handleHornDucking\<close>.\<close>

definition update ::
  "real \<Rightarrow> cint \<Rightarrow> cint \<Rightarrow> bool \<Rightarrow> bool \<Rightarrow> bool \<Rightarrow> Mode \<Rightarrow> VolumeControlType \<Rightarrow> cint
     \<Rightarrow> avc \<Rightarrow> avc" where
  "update now newSpeed newNoise newReverseGear newHornActive newNavSpeaking newMode
      newControlType newManualVolume s =
     (let s1 = s\<lparr>previousSpeed := speed s\<rparr>;
          s2 = s1\<lparr>speed := newSpeed\<rparr>;
          s3 = s2\<lparr>cabinNoise := newNoise\<rparr>;
          s4 = s3\<lparr>reverseGear := newReverseGear\<rparr>;
          s5 = s4\<lparr>hornActive := newHornActive\<rparr>;
          s6 = s5\<lparr>navSpeaking := newNavSpeaking\<rparr>;
          s7 = s6\<lparr>mode := newMode\<rparr>;
          s8 = s7\<lparr>controlType := newControlType\<rparr>;
          s9 = (if controlType s8 = MANUAL then s8\<lparr>manualVolume := newManualVolume\<rparr> else s8);
          s10 = handleHornDucking now newHornActive s9;
          s11 = handleNavigationDucking newNavSpeaking s10
      in calculateTargetVolume s11)"

text \<open>\<^verbatim>\<open>smoothVolumeTransition\<close> (lines 178-183).\<close>

definition smoothVolumeTransition :: "avc \<Rightarrow> avc" where
  "smoothVolumeTransition s =
     (let diff = targetVolume s - currentVolume s
      in s\<lparr>currentVolume := currentVolume s + diff * SMOOTH_FACTOR\<rparr>)"

text \<open>
  \<^verbatim>\<open>printAndSmooth\<close> (lines 220-230). \<open>smoothLoop\<close> is its \<^verbatim>\<open>while\<close> loop; with exact
  arithmetic every step multiplies the gap by \<open>7/10\<close>, so the loop ends.
\<close>

function smoothLoop :: "avc \<Rightarrow> avc" where
  "smoothLoop s =
     (if \<bar>currentVolume s - targetVolume s\<bar> > 0.5
      then smoothLoop (smoothVolumeTransition s)
      else s)"
  by pat_completeness auto
termination
proof (relation "measure (\<lambda>s. nat \<lceil>7 * \<bar>currentVolume s - targetVolume s\<bar>\<rceil>)")
  show "wf (measure (\<lambda>s. nat \<lceil>7 * \<bar>currentVolume s - targetVolume s\<bar>\<rceil>))"
    by simp
next
  fix s :: avc
  assume gap: "5 / 10 < \<bar>currentVolume s - targetVolume s\<bar>"
  define g where "g = \<bar>currentVolume s - targetVolume s\<bar>"
  define g' where
    "g' = \<bar>currentVolume (smoothVolumeTransition s) - targetVolume (smoothVolumeTransition s)\<bar>"
  have half: "1 / 2 < g"
    using gap by (simp add: g_def)
  have "currentVolume (smoothVolumeTransition s) - targetVolume (smoothVolumeTransition s)
      = (7 / 10) * (currentVolume s - targetVolume s)"
    by (simp add: smoothVolumeTransition_def SMOOTH_FACTOR_def Let_def field_simps)
  then have shrink: "g' = (7 / 10) * g"
    by (simp only: g'_def g_def abs_mult abs_divide abs_numeral)
  have "7 * g' + 1 \<le> 7 * g"
    using half shrink by linarith
  then have "\<lceil>7 * g'\<rceil> < \<lceil>7 * g\<rceil>"
    by linarith
  moreover have "0 < \<lceil>7 * g\<rceil>"
    using half by linarith
  ultimately have "nat \<lceil>7 * g'\<rceil> < nat \<lceil>7 * g\<rceil>"
    by linarith
  then show "(smoothVolumeTransition s, s)
      \<in> measure (\<lambda>s. nat \<lceil>7 * \<bar>currentVolume s - targetVolume s\<bar>\<rceil>)"
    by (simp only: in_measure g_def g'_def)
qed

declare smoothLoop.simps [simp del]

definition printAndSmooth :: "avc \<Rightarrow> avc" where
  "printAndSmooth s = (let s1 = smoothLoop s in s1\<lparr>currentVolume := targetVolume s1\<rparr>)"

subsection \<open>The smoothing step in binary32\<close>

text \<open>
  The step and the loop above are taken in exact arithmetic, which is enough to bound the
  two levels. Whether the loop ends depends on the rounding of the \<^verbatim>\<open>float\<close> operations,
  so the step and the loop are given a second time with every operation rounded to the
  nearest binary32 value, ties to even. \<open>flog2 x\<close> is the exponent of a positive \<open>x\<close>,
  \<open>rne\<close> rounds to the nearest integer, ties to even, and \<open>round32\<close> rounds to a
  significand of 24 bits, or to a multiple of \<open>2 ^ - 149\<close> below the normal range. No
  value of the engine comes near the largest binary32 value, so overflow is left out.
\<close>

function flog2 :: "real \<Rightarrow> int" where
  "flog2 x =
     (if x \<le> 0 then 0
      else if x < 1 then flog2 (2 * x) - 1
      else if 2 \<le> x then flog2 (x / 2) + 1
      else 0)"
  by pat_completeness auto
termination
proof (relation "measure (\<lambda>x. nat \<bar>\<lfloor>log 2 x\<rfloor>\<bar>)")
  show "wf (measure (\<lambda>x. nat \<bar>\<lfloor>log 2 x\<rfloor>\<bar>))"
    by simp
next
  fix x :: real
  assume "\<not> x \<le> 0" and "x < 1"
  then have pos: "0 < x" and lt: "x < 1" by simp_all
  have "log 2 x < 0"
    using pos lt by simp
  then have neg: "\<lfloor>log 2 x\<rfloor> \<le> - 1"
    by linarith
  have "log 2 (2 * x) = 1 + log 2 x"
    using pos by (simp add: log_mult)
  then have "\<lfloor>log 2 (2 * x)\<rfloor> = 1 + \<lfloor>log 2 x\<rfloor>"
    by simp
  with neg show "(2 * x, x) \<in> measure (\<lambda>x. nat \<bar>\<lfloor>log 2 x\<rfloor>\<bar>)"
    by simp
next
  fix x :: real
  assume "\<not> x \<le> 0" and "\<not> x < 1" and "2 \<le> x"
  then have pos: "0 < x" and ge: "2 \<le> x" by simp_all
  have "1 \<le> log 2 x"
    using ge by (simp add: le_log_iff)
  then have big: "1 \<le> \<lfloor>log 2 x\<rfloor>"
    by linarith
  have "log 2 (x / 2) = log 2 x - 1"
    using pos by (simp add: log_divide)
  then have "\<lfloor>log 2 (x / 2)\<rfloor> = \<lfloor>log 2 x\<rfloor> - 1"
    by simp
  with big show "(x / 2, x) \<in> measure (\<lambda>x. nat \<bar>\<lfloor>log 2 x\<rfloor>\<bar>)"
    by simp
qed

declare flog2.simps [simp del]

definition rne :: "real \<Rightarrow> int" where
  "rne y =
     (let f = \<lfloor>y\<rfloor>
      in if y - of_int f < 1 / 2 then f
         else if 1 / 2 < y - of_int f then f + 1
         else if even f then f else f + 1)"

definition round32 :: "real \<Rightarrow> real" where
  "round32 x =
     (if x = 0 then 0
      else (let e = max (flog2 \<bar>x\<bar>) (- 126);
                q = 2 powi (e - 23)
            in of_int (rne (x / q)) * q))"

text \<open>
  \<^verbatim>\<open>smoothVolumeTransition\<close> in binary32: the subtraction, the product with the constant
  \<^verbatim>\<open>0.3f\<close> and the addition are rounded one by one.
\<close>

definition step32 :: "real \<Rightarrow> real \<Rightarrow> real" where
  "step32 c t =
     (let diff = round32 (t - c)
      in round32 (c + round32 (diff * round32 SMOOTH_FACTOR)))"

definition smoothVolumeTransition32 :: "avc \<Rightarrow> avc" where
  "smoothVolumeTransition32 s = s\<lparr>currentVolume := step32 (currentVolume s) (targetVolume s)\<rparr>"

text \<open>The loop condition \<^verbatim>\<open>std::abs(currentVolume - targetVolume) > 0.5f\<close>.\<close>

definition gapOpen32 :: "real \<Rightarrow> real \<Rightarrow> bool" where
  "gapOpen32 c t \<longleftrightarrow> \<bar>round32 (c - t)\<bar> > round32 0.5"

text \<open>
  The loop of \<^verbatim>\<open>printAndSmooth\<close> in binary32 need not end: \<open>None\<close> is a run that never
  leaves the loop.
\<close>

partial_function (option) smoothLoop32 :: "avc \<Rightarrow> avc option" where
  "smoothLoop32 s =
     (if gapOpen32 (currentVolume s) (targetVolume s)
      then smoothLoop32 (smoothVolumeTransition32 s)
      else Some s)"

definition printAndSmooth32 :: "avc \<Rightarrow> avc option" where
  "printAndSmooth32 s =
     (case smoothLoop32 s of
        None \<Rightarrow> None
      | Some s1 \<Rightarrow> Some (s1\<lparr>currentVolume := targetVolume s1\<rparr>))"

text \<open>
  \<open>follows c ds t\<close>: from the current level \<open>c\<close> the loop with target \<open>t\<close> takes one step
  for each element of \<open>ds\<close>, and these are the levels it passes through.
\<close>

fun follows :: "real \<Rightarrow> real list \<Rightarrow> real \<Rightarrow> bool" where
  "follows c [] t = True"
| "follows c (d # ds) t = (gapOpen32 c t \<and> step32 c t = d \<and> follows d ds t)"

subsection \<open>Sequences of calls\<close>

text \<open>
  A client of the engine constructs it and then calls \<^verbatim>\<open>update\<close>, single smoothing steps
  and \<^verbatim>\<open>printAndSmooth\<close> in any order. \<open>Update\<close> carries the clock value and the eight
  arguments of \<^verbatim>\<open>update\<close>.
\<close>

datatype call =
  Update real cint cint bool bool bool Mode VolumeControlType cint
  | SmoothStep
  | PrintAndSmooth

fun perform :: "call \<Rightarrow> avc \<Rightarrow> avc" where
  "perform (Update now sp no rg ha ns md ct mv) s = update now sp no rg ha ns md ct mv s"
| "perform SmoothStep s = smoothVolumeTransition s"
| "perform PrintAndSmooth s = printAndSmooth s"

fun run :: "avc \<Rightarrow> call list \<Rightarrow> avc" where
  "run s [] = s"
| "run s (c # cs) = run (perform c s) cs"

text \<open>A call that passes no negative level under manual policy.\<close>

fun manualNonneg :: "call \<Rightarrow> bool" where
  "manualNonneg (Update now sp no rg ha ns md ct mv) = (ct = ADAPTIVE \<or> 0 \<le> sint mv)"
| "manualNonneg SmoothStep = True"
| "manualNonneg PrintAndSmooth = True"

text \<open>A call that is not an update under manual policy.\<close>

fun adaptiveOnly :: "call \<Rightarrow> bool" where
  "adaptiveOnly (Update now sp no rg ha ns md ct mv) = (ct = ADAPTIVE)"
| "adaptiveOnly SmoothStep = True"
| "adaptiveOnly PrintAndSmooth = True"

text \<open>The upper bounds that every call keeps.\<close>

definition upperInv :: "avc \<Rightarrow> bool" where
  "upperInv s \<longleftrightarrow>
     currentVolume s \<le> 100 \<and> targetVolume s \<le> 100 \<and>
     (controlType s = ADAPTIVE \<longrightarrow> 0 \<le> targetVolume s \<and> targetVolume s \<le> 80)"

subsection \<open>Parts of the target computation, named for the statements below\<close>

text \<open>The final clamp of \<^verbatim>\<open>applyVolumeModifiers\<close> (lines 143-144).\<close>

definition clampAdaptive :: "real \<Rightarrow> real" where
  "clampAdaptive x =
     (let b5 = (if x < MIN_VOLUME then MIN_VOLUME else x)
      in if b5 > MAX_ADAPTIVE_VOLUME then MAX_ADAPTIVE_VOLUME else b5)"

text \<open>The value \<^verbatim>\<open>applyVolumeModifiers\<close> holds before that clamp (lines 113-140).\<close>

definition modifierChain :: "avc \<Rightarrow> real \<Rightarrow> real" where
  "modifierChain s baseVolume =
     (let b1 = (if hornDuckActive s then baseVolume * HORN_DUCK_MULTIPLIER else baseVolume);
          b2 = (if navSpeaking s then b1 * 0.5 else b1);
          b3 = (if reverseGear s then b2 * 0.25 else b2)
      in if \<not> reverseGear s then
           (let speedDiff = previousSpeed s - speed s
            in if sint speedDiff > 10 then b3 * 0.5
               else if sint (speed s) < sint (previousSpeed s) then b3 * 0.9
               else b3)
         else b3)"

text \<open>
  The value \<^verbatim>\<open>calculateTargetVolume\<close> passes to \<^verbatim>\<open>applyVolumeModifiers\<close> under adaptive
  control (lines 158-170), as a function of the members it reads: speed, cabin noise and
  mode.
\<close>

definition baseVolume :: "cint \<Rightarrow> cint \<Rightarrow> Mode \<Rightarrow> real" where
  "baseVolume sp no md =
     (let v0 = (25 :: real);
          v1 = (if sint sp > 70 then v0 + 15
                else if sint sp > 30 then v0 + 10
                else if sint sp > 0 then v0 + 5
                else v0);
          v2 = v1 + int_to_float (sint no) * 0.2
      in case md of ECO \<Rightarrow> v2 * 0.8 | COMFORT \<Rightarrow> v2 | SPORTS \<Rightarrow> v2 * 1.2)"

section \<open>Basic facts\<close>

lemma roundHalfEven_nonneg:
  "0 \<le> a \<Longrightarrow> 0 \<le> roundHalfEven a sh"
  by (simp add: roundHalfEven_def Let_def pos_imp_zdiv_nonneg_iff)

lemma roundHalfEven_lower:
  "a - 2 ^ sh < roundHalfEven a sh"
proof -
  have r: "a mod 2 ^ sh < 2 ^ sh"
    by simp
  have "a = a div 2 ^ sh * 2 ^ sh + a mod 2 ^ sh"
    by (simp only: div_mult_mod_eq)
  then have low: "a - 2 ^ sh < a div 2 ^ sh * 2 ^ sh"
    using r by linarith
  have up: "a div 2 ^ sh * 2 ^ sh \<le> (a div 2 ^ sh + 1) * 2 ^ sh"
    by (simp add: distrib_right)
  have up': "a - 2 ^ sh < (a div 2 ^ sh + 1) * 2 ^ sh"
    using low up by linarith
  show ?thesis
    unfolding roundHalfEven_def Let_def using low up' by (simp only: split: if_splits) simp
qed

lemma int_to_float_exact:
  "\<bar>x\<bar> < 2 ^ 24 \<Longrightarrow> int_to_float x = real_of_int x"
  by (simp add: int_to_float_def floatShift_def roundHalfEven_def Let_def mult_sgn_abs)

lemma int_to_float_nonneg:
  "0 \<le> x \<Longrightarrow> 0 \<le> int_to_float x"
  using roundHalfEven_nonneg [of "\<bar>x\<bar>" "floatShift \<bar>x\<bar>"]
  by (simp add: int_to_float_def sgn_if)

lemma floatShift_le: "floatShift a \<le> 8"
  by (simp add: floatShift_def)

lemma int_to_float_large:
  assumes "2 ^ 24 \<le> x"
  shows "100 \<le> int_to_float x"
proof -
  have "(2::int) ^ floatShift \<bar>x\<bar> \<le> 2 ^ 8"
    by (rule power_increasing) (simp_all add: floatShift_le)
  then have "x - 256 < roundHalfEven \<bar>x\<bar> (floatShift \<bar>x\<bar>)"
    using roundHalfEven_lower [of "\<bar>x\<bar>" "floatShift \<bar>x\<bar>"] assms by simp
  then have "100 \<le> roundHalfEven \<bar>x\<bar> (floatShift \<bar>x\<bar>)"
    using assms by simp
  then have "100 \<le> real_of_int (roundHalfEven \<bar>x\<bar> (floatShift \<bar>x\<bar>))"
    by linarith
  then show ?thesis
    using assms by (simp add: int_to_float_def sgn_if)
qed

lemma int_to_float_min:
  assumes "- (2 ^ 24) \<le> x"
  shows "min (int_to_float x) 100 = min (real_of_int x) 100"
proof (cases "x < 2 ^ 24")
  case True
  show ?thesis
  proof (cases "x = - (2 ^ 24)")
    case True
    then show ?thesis
      by (simp add: int_to_float_def floatShift_def roundHalfEven_def Let_def)
  next
    case False
    with assms True have "\<bar>x\<bar> < 2 ^ 24"
      by simp
    then show ?thesis
      by (simp add: int_to_float_exact)
  qed
next
  case False
  then have big: "2 ^ 24 \<le> x"
    by simp
  then have "100 \<le> int_to_float x"
    by (rule int_to_float_large)
  moreover have "100 \<le> x"
    using big by simp
  then have "100 \<le> real_of_int x"
    by linarith
  ultimately show ?thesis
    by simp
qed

lemma applyVolumeModifiers_clamp:
  "applyVolumeModifiers s b = clampAdaptive (modifierChain s b)"
  by (simp add: applyVolumeModifiers_def clampAdaptive_def modifierChain_def Let_def)

lemma calculateTargetVolume_adaptive:
  "controlType s = ADAPTIVE \<Longrightarrow>
     calculateTargetVolume s
       = s\<lparr>targetVolume := applyVolumeModifiers s (baseVolume (speed s) (cabinNoise s) (mode s))\<rparr>"
  by (simp add: calculateTargetVolume_def baseVolume_def int_to_float_exact Let_def)

lemma calculateTargetVolume_manual:
  "controlType s = MANUAL \<Longrightarrow>
     calculateTargetVolume s
       = s\<lparr>targetVolume := min (int_to_float (sint (manualVolume s))) MAX_VOLUME\<rparr>"
  by (simp add: calculateTargetVolume_def)

lemma clampAdaptive_range:
  "0 \<le> clampAdaptive x \<and> clampAdaptive x \<le> 80"
  by (simp add: clampAdaptive_def MIN_VOLUME_def MAX_ADAPTIVE_VOLUME_def Let_def)

lemma handleHornDucking_frame:
  "speed (handleHornDucking now ha s) = speed s"
  "previousSpeed (handleHornDucking now ha s) = previousSpeed s"
  "cabinNoise (handleHornDucking now ha s) = cabinNoise s"
  "reverseGear (handleHornDucking now ha s) = reverseGear s"
  "hornActive (handleHornDucking now ha s) = hornActive s"
  "navSpeaking (handleHornDucking now ha s) = navSpeaking s"
  "mode (handleHornDucking now ha s) = mode s"
  "controlType (handleHornDucking now ha s) = controlType s"
  "manualVolume (handleHornDucking now ha s) = manualVolume s"
  "targetVolume (handleHornDucking now ha s) = targetVolume s"
  "currentVolume (handleHornDucking now ha s) = currentVolume s"
  by (simp_all add: handleHornDucking_def Let_def)

lemma calculateTargetVolume_frame:
  "speed (calculateTargetVolume s) = speed s"
  "previousSpeed (calculateTargetVolume s) = previousSpeed s"
  "cabinNoise (calculateTargetVolume s) = cabinNoise s"
  "reverseGear (calculateTargetVolume s) = reverseGear s"
  "hornActive (calculateTargetVolume s) = hornActive s"
  "navSpeaking (calculateTargetVolume s) = navSpeaking s"
  "mode (calculateTargetVolume s) = mode s"
  "controlType (calculateTargetVolume s) = controlType s"
  "manualVolume (calculateTargetVolume s) = manualVolume s"
  "currentVolume (calculateTargetVolume s) = currentVolume s"
  "hornDuckStartTime (calculateTargetVolume s) = hornDuckStartTime s"
  "hornDuckActive (calculateTargetVolume s) = hornDuckActive s"
  by (simp_all add: calculateTargetVolume_def Let_def)

lemma update_unfold:
  "update now sp no rg ha ns md ct mv s =
     calculateTargetVolume (handleHornDucking now ha
       (s\<lparr>previousSpeed := speed s, speed := sp, cabinNoise := no, reverseGear := rg,
          hornActive := ha, navSpeaking := ns, mode := md, controlType := ct,
          manualVolume := (if ct = MANUAL then mv else manualVolume s)\<rparr>))"
  by (cases s) (simp add: update_def handleNavigationDucking_def handleHornDucking_def Let_def)

lemma handleHornDucking_released:
  "\<not> hornActive s \<Longrightarrow>
   handleHornDucking now False s =
     s\<lparr>hornDuckActive := hornDuckActive s \<and> now - hornDuckStartTime s < HORN_DUCK_DURATION\<rparr>"
  by (cases s) (simp add: handleHornDucking_def Let_def not_le)

lemma update_horn_released:
  "hornDuckStartTime (update now sp no rg False ns md ct mv s) = hornDuckStartTime s \<and>
   hornDuckActive (update now sp no rg False ns md ct mv s)
     = (hornDuckActive s \<and> now - hornDuckStartTime s < HORN_DUCK_DURATION)"
  by (simp add: update_unfold calculateTargetVolume_frame handleHornDucking_released)

lemma update_horn_pressed:
  "hornDuckStartTime (update now sp no rg True ns md ct mv s) = now \<and>
   hornDuckActive (update now sp no rg True ns md ct mv s)"
  by (simp add: update_unfold calculateTargetVolume_frame handleHornDucking_def)

lemma update_fields:
  "speed (update now sp no rg ha ns md ct mv s) = sp"
  "previousSpeed (update now sp no rg ha ns md ct mv s) = speed s"
  "cabinNoise (update now sp no rg ha ns md ct mv s) = no"
  "reverseGear (update now sp no rg ha ns md ct mv s) = rg"
  "hornActive (update now sp no rg ha ns md ct mv s) = ha"
  "navSpeaking (update now sp no rg ha ns md ct mv s) = ns"
  "mode (update now sp no rg ha ns md ct mv s) = md"
  "controlType (update now sp no rg ha ns md ct mv s) = ct"
  "manualVolume (update now sp no rg ha ns md ct mv s) = (if ct = MANUAL then mv else manualVolume s)"
  "currentVolume (update now sp no rg ha ns md ct mv s) = currentVolume s"
  by (simp_all add: update_unfold calculateTargetVolume_frame handleHornDucking_frame)

lemma modifierChain_calculateTargetVolume:
  "modifierChain (calculateTargetVolume s) b = modifierChain s b"
  by (simp add: modifierChain_def calculateTargetVolume_frame)

lemma update_adaptive_target:
  "targetVolume (update now sp no rg ha ns md ADAPTIVE mv s) =
     clampAdaptive (modifierChain (update now sp no rg ha ns md ADAPTIVE mv s) (baseVolume sp no md))"
proof -
  define mid where "mid = handleHornDucking now ha
       (s\<lparr>previousSpeed := speed s, speed := sp, cabinNoise := no, reverseGear := rg,
          hornActive := ha, navSpeaking := ns, mode := md, controlType := ADAPTIVE,
          manualVolume := (if ADAPTIVE = MANUAL then mv else manualVolume s)\<rparr>)"
  have upd: "update now sp no rg ha ns md ADAPTIVE mv s = calculateTargetVolume mid"
    unfolding mid_def by (rule update_unfold)
  have mid: "controlType mid = ADAPTIVE" "speed mid = sp" "cabinNoise mid = no" "mode mid = md"
    by (simp_all add: mid_def handleHornDucking_frame)
  show ?thesis
    unfolding upd modifierChain_calculateTargetVolume
    by (simp add: calculateTargetVolume_adaptive mid applyVolumeModifiers_clamp)
qed

lemma sint_diff_no_overflow:
  fixes a b :: cint
  assumes "- (2 ^ 31) \<le> sint a - sint b" "sint a - sint b < 2 ^ 31"
  shows "sint (a - b) = sint a - sint b"
  using assms by (simp add: sint_word_ariths signed_take_bit_int_eq_self)

lemma clampAdaptive_scale:
  assumes "clampAdaptive r < 80" and "0 \<le> k" and "k \<le> 1"
  shows "clampAdaptive (r * k) = clampAdaptive r * k"
proof (cases "r < 0")
  case True
  then have "r * k \<le> 0"
    using assms(2) by (simp add: mult_nonpos_nonneg)
  then show ?thesis
    using True by (simp add: clampAdaptive_def MIN_VOLUME_def MAX_ADAPTIVE_VOLUME_def Let_def)
next
  case False
  then have r: "0 \<le> r" "r < 80"
    using assms(1)
    by (simp_all add: clampAdaptive_def MIN_VOLUME_def MAX_ADAPTIVE_VOLUME_def Let_def
        split: if_splits)
  have "0 \<le> r * k"
    using r(1) assms(2) by simp
  moreover have "r * k \<le> r * 1"
    using r(1) assms(3) by (rule mult_left_mono[rotated])
  ultimately show ?thesis
    using r by (simp add: clampAdaptive_def MIN_VOLUME_def MAX_ADAPTIVE_VOLUME_def Let_def)
qed

lemma modifierChain_duck_nav:
  "modifierChain (s\<lparr>hornDuckActive := True, navSpeaking := True\<rparr>) b
     = modifierChain (s\<lparr>hornDuckActive := False, navSpeaking := False\<rparr>) b * 0.6 * 0.5"
  by (simp add: modifierChain_def HORN_DUCK_MULTIPLIER_def Let_def)

lemma smoothVolumeTransition_fields:
  "targetVolume (smoothVolumeTransition s) = targetVolume s"
  "controlType (smoothVolumeTransition s) = controlType s"
  "currentVolume (smoothVolumeTransition s)
     = currentVolume s + (targetVolume s - currentVolume s) * 0.3"
  by (simp_all add: smoothVolumeTransition_def SMOOTH_FACTOR_def Let_def)

lemma smoothVolumeTransition_between:
  "min (currentVolume s) (targetVolume s) \<le> currentVolume (smoothVolumeTransition s) \<and>
   currentVolume (smoothVolumeTransition s) \<le> max (currentVolume s) (targetVolume s)"
  by (simp add: smoothVolumeTransition_fields min_def max_def field_simps)

lemma smoothLoop_fields:
  "targetVolume (smoothLoop s) = targetVolume s \<and> controlType (smoothLoop s) = controlType s"
proof (induction s rule: smoothLoop.induct)
  case (1 s)
  show ?case
  proof (cases "\<bar>currentVolume s - targetVolume s\<bar> > 0.5")
    case True
    then have "smoothLoop s = smoothLoop (smoothVolumeTransition s)"
      by (subst smoothLoop.simps) simp
    with 1 True show ?thesis
      by (simp add: smoothVolumeTransition_fields)
  next
    case False
    then have "smoothLoop s = s"
      by (subst smoothLoop.simps) simp
    then show ?thesis by simp
  qed
qed

lemma printAndSmooth_fields:
  "currentVolume (printAndSmooth s) = targetVolume s"
  "targetVolume (printAndSmooth s) = targetVolume s"
  "controlType (printAndSmooth s) = controlType s"
  by (simp_all add: printAndSmooth_def Let_def smoothLoop_fields)

lemma update_manual_target_eq:
  "targetVolume (update now sp no rg ha ns md MANUAL mv s) = min (int_to_float (sint mv)) MAX_VOLUME"
  by (simp add: update_unfold calculateTargetVolume_manual handleHornDucking_frame)

lemma update_adaptive_target_bounds:
  "0 \<le> targetVolume (update now sp no rg ha ns md ADAPTIVE mv s)"
  "targetVolume (update now sp no rg ha ns md ADAPTIVE mv s) \<le> 80"
  by (simp_all add: update_adaptive_target clampAdaptive_range)

lemma smoothVolumeTransition_upper:
  "currentVolume s \<le> b \<Longrightarrow> targetVolume s \<le> b \<Longrightarrow> currentVolume (smoothVolumeTransition s) \<le> b"
  using smoothVolumeTransition_between [of s] by linarith

lemma smoothVolumeTransition_lower:
  "b \<le> currentVolume s \<Longrightarrow> b \<le> targetVolume s \<Longrightarrow> b \<le> currentVolume (smoothVolumeTransition s)"
  using smoothVolumeTransition_between [of s] by linarith

lemma update_manual_target_nonneg:
  "0 \<le> sint mv \<Longrightarrow> 0 \<le> targetVolume (update now sp no rg ha ns md MANUAL mv s)"
  unfolding update_manual_target_eq MAX_VOLUME_def
  using int_to_float_nonneg [of "sint mv"] by simp

lemma update_manual_target_upper:
  "targetVolume (update now sp no rg ha ns md MANUAL mv s) \<le> 100"
  unfolding update_manual_target_eq MAX_VOLUME_def by (rule min.cobounded2)

lemma run_invariant:
  assumes "I s" and "\<And>c s. c \<in> set cs \<Longrightarrow> I s \<Longrightarrow> I (perform c s)"
  shows "I (run s cs)"
  using assms by (induction cs arbitrary: s) auto

lemma perform_upperInv:
  assumes "upperInv s"
  shows "upperInv (perform c s)"
proof (cases c)
  case (Update now sp no rg ha ns md ct mv)
  show ?thesis
  proof (cases ct)
    case ADAPTIVE
    with assms Update show ?thesis
      using update_adaptive_target_bounds [of now sp no rg ha ns md mv s]
      by (simp add: upperInv_def update_fields)
  next
    case MANUAL
    with assms Update show ?thesis
      using update_manual_target_upper [of now sp no rg ha ns md mv s]
      by (simp add: upperInv_def update_fields)
  qed
next
  case SmoothStep
  with assms show ?thesis
    using smoothVolumeTransition_upper [of s 100]
    by (simp add: upperInv_def smoothVolumeTransition_fields(1,2))
next
  case PrintAndSmooth
  with assms show ?thesis
    by (simp add: upperInv_def printAndSmooth_fields)
qed

lemma perform_nonneg:
  assumes "0 \<le> targetVolume s \<and> 0 \<le> currentVolume s" and "manualNonneg c"
  shows "0 \<le> targetVolume (perform c s) \<and> 0 \<le> currentVolume (perform c s)"
proof (cases c)
  case (Update now sp no rg ha ns md ct mv)
  show ?thesis
  proof (cases ct)
    case ADAPTIVE
    with assms Update show ?thesis
      using update_adaptive_target_bounds [of now sp no rg ha ns md mv s]
      by (simp add: update_fields)
  next
    case MANUAL
    with assms Update show ?thesis
      using update_manual_target_nonneg [of mv now sp no rg ha ns md s]
      by (simp add: update_fields)
  qed
next
  case SmoothStep
  with assms show ?thesis
    using smoothVolumeTransition_lower [of 0 s]
    by (simp add: smoothVolumeTransition_fields(1,2))
next
  case PrintAndSmooth
  with assms show ?thesis
    by (simp add: printAndSmooth_fields)
qed

lemma perform_adaptive_upper:
  assumes "targetVolume s \<le> 80 \<and> currentVolume s \<le> 80" and "adaptiveOnly c"
  shows "targetVolume (perform c s) \<le> 80 \<and> currentVolume (perform c s) \<le> 80"
proof (cases c)
  case (Update now sp no rg ha ns md ct mv)
  with assms show ?thesis
    using update_adaptive_target_bounds [of now sp no rg ha ns md mv s]
    by (simp add: update_fields)
next
  case SmoothStep
  with assms show ?thesis
    using smoothVolumeTransition_upper [of s 80]
    by (simp add: smoothVolumeTransition_fields(1,2))
next
  case PrintAndSmooth
  with assms show ?thesis
    by (simp add: printAndSmooth_fields)
qed

lemma update_hornDuckActive_speed:
  "hornDuckActive (update now sp no rg ha ns md ct mv (s\<lparr>speed := v\<rparr>))
     = hornDuckActive (update now sp no rg ha ns md ct mv s)"
  by (cases ha) (simp_all add: update_horn_pressed update_horn_released)

lemmas eval32 = step32_def gapOpen32_def SMOOTH_FACTOR_def round32_def rne_def
  flog2.simps Let_def

lemma smoothLoop32_follows:
  "follows c ds t \<Longrightarrow> targetVolume s = t \<Longrightarrow>
     smoothLoop32 (s\<lparr>currentVolume := c\<rparr>) = smoothLoop32 (s\<lparr>currentVolume := last (c # ds)\<rparr>)"
proof (induction ds arbitrary: c)
  case Nil
  show ?case by simp
next
  case (Cons d ds)
  from Cons.prems have "gapOpen32 c t" and d: "step32 c t = d" and rest: "follows d ds t"
    by simp_all
  then have "smoothLoop32 (s\<lparr>currentVolume := c\<rparr>)
      = smoothLoop32 (smoothVolumeTransition32 (s\<lparr>currentVolume := c\<rparr>))"
    using Cons.prems(2) by (subst smoothLoop32.simps) simp
  also have "smoothVolumeTransition32 (s\<lparr>currentVolume := c\<rparr>) = s\<lparr>currentVolume := d\<rparr>"
    using Cons.prems(2) d by (simp add: smoothVolumeTransition32_def)
  also have "smoothLoop32 (s\<lparr>currentVolume := d\<rparr>)
      = smoothLoop32 (s\<lparr>currentVolume := last (d # ds)\<rparr>)"
    using rest Cons.prems(2) by (rule Cons.IH)
  finally show ?case by simp
qed

lemma smoothLoop32_Some_not_stuck:
  assumes "smoothLoop32 s = Some z"
  shows "\<not> (gapOpen32 (currentVolume s) (targetVolume s) \<and>
        step32 (currentVolume s) (targetVolume s) = currentVolume s)"
proof (rule smoothLoop32.raw_induct
    [where P = "\<lambda>x z. \<not> (gapOpen32 (currentVolume x) (targetVolume x) \<and>
        step32 (currentVolume x) (targetVolume x) = currentVolume x)"])
  show "smoothLoop32 s = Some z"
    by (rule assms)
next
  fix loop :: "avc \<Rightarrow> avc option" and x z :: avc
  assume IH: "\<And>x z. loop x = Some z \<Longrightarrow>
      \<not> (gapOpen32 (currentVolume x) (targetVolume x) \<and>
        step32 (currentVolume x) (targetVolume x) = currentVolume x)"
    and body: "(if gapOpen32 (currentVolume x) (targetVolume x)
        then loop (smoothVolumeTransition32 x) else Some x) = Some z"
  show "\<not> (gapOpen32 (currentVolume x) (targetVolume x) \<and>
        step32 (currentVolume x) (targetVolume x) = currentVolume x)"
  proof
    assume stuck: "gapOpen32 (currentVolume x) (targetVolume x) \<and>
        step32 (currentVolume x) (targetVolume x) = currentVolume x"
    then have "smoothVolumeTransition32 x = x"
      by (simp add: smoothVolumeTransition32_def)
    with body stuck have "loop x = Some z"
      by simp
    then have "\<not> (gapOpen32 (currentVolume x) (targetVolume x) \<and>
        step32 (currentVolume x) (targetVolume x) = currentVolume x)"
      by (rule IH)
    with stuck show False
      by simp
  qed
qed

lemma smoothLoop32_stuck:
  assumes "gapOpen32 (currentVolume s) (targetVolume s)"
    and "step32 (currentVolume s) (targetVolume s) = currentVolume s"
  shows "smoothLoop32 s = None"
proof (cases "smoothLoop32 s")
  case None
  then show ?thesis .
next
  case (Some z)
  then show ?thesis
    using smoothLoop32_Some_not_stuck [of s z] assms by simp
qed

lemma trace_stuck:
  "follows 25
     [- 10066261 / 4, - 8556357 / 2, - 5511308, - 12748997 / 2, - 13957463 / 2,
      - 7401695, - 7697769, - 7905021, - 16100195 / 2, - 8151651, - 16445477 / 2,
      - 16544999 / 2, - 16614665 / 2, - 16663431 / 2, - 16697567 / 2, - 8360731,
      - 16738189 / 2, - 8374949, - 8379047, - 16763831 / 2, - 16767847 / 2, - 8385329,
      - 8386313, - 8387002, - 8387484, - 16775643 / 2, - 8388058, - 16776447 / 2,
      - 8388339, - 8388420, - 16776953 / 2, - 8388516, - 8388544, - 16777127 / 2,
      - 8388577, - 16777173 / 2, - 16777187 / 2, - 8388598, - 16777203 / 2, - 8388604,
      - 16777211 / 2, - 16777213 / 2, - 8388607, - 16777215 / 2, - 8388608]
     (- 8388609)"
  by (simp add: eval32)

lemma stuck_state:
  "gapOpen32 (- 8388608) (- 8388609) \<and> step32 (- 8388608) (- 8388609) = - 8388608"
  by (simp add: eval32)

lemma trace_done:
  "follows 25
     [31, 9227469 / 262144, 2499543 / 65536, 164651 / 4096, 10915309 / 262144,
      2794915 / 65536, 5682353 / 131072, 5747119 / 131072, 11584911 / 262144,
      5824191 / 131072, 11692811 / 262144]
     45 \<and> \<not> gapOpen32 (11692811 / 262144) 45"
  by (simp add: eval32)

section \<open>The constructor\<close>

text \<open>
  Claim C9, as the code has it: the freshly constructed engine has speed and previous speed
  0, cabin noise 30, the reverse, horn and navigation flags false, mode comfort, adaptive
  (automatic) control, ducking inactive, current and target level 25, and the ducking
  start time read from the clock. The manual level is 25 (the claim says 0).
\<close>

theorem constructor_state:
  "AdaptiveVolumeControl now =
     \<lparr> speed = 0, previousSpeed = 0, cabinNoise = 30,
       reverseGear = False, hornActive = False, navSpeaking = False,
       mode = COMFORT, controlType = ADAPTIVE, manualVolume = 25,
       targetVolume = 25, currentVolume = 25,
       hornDuckStartTime = now, hornDuckActive = False \<rparr>"
  by (simp add: AdaptiveVolumeControl_def DEFAULT_VOLUME_def)

text \<open>
  Claim C9 as stated fails: the conjunction it lists, with manual level 0, is false of the
  engine constructed at clock value 0.
\<close>

theorem constructor_manual_level_counterexample:
  "\<not> (previousSpeed (AdaptiveVolumeControl 0) = 0 \<and> speed (AdaptiveVolumeControl 0) = 0
      \<and> cabinNoise (AdaptiveVolumeControl 0) = 30
      \<and> reverseGear (AdaptiveVolumeControl 0) = False
      \<and> hornActive (AdaptiveVolumeControl 0) = False
      \<and> navSpeaking (AdaptiveVolumeControl 0) = False
      \<and> mode (AdaptiveVolumeControl 0) = COMFORT
      \<and> controlType (AdaptiveVolumeControl 0) = ADAPTIVE
      \<and> manualVolume (AdaptiveVolumeControl 0) = 0
      \<and> hornDuckActive (AdaptiveVolumeControl 0) = False
      \<and> currentVolume (AdaptiveVolumeControl 0) = 25
      \<and> targetVolume (AdaptiveVolumeControl 0) = 25)"
  by (simp add: AdaptiveVolumeControl_def)

section \<open>The target level of one update\<close>

text \<open>
  Claim C3: an update under adaptive (automatic) control, from any state, at any clock
  value and with any 32-bit speed, noise and manual level, any flags and any mode, leaves
  a target level between 0 and 80.
\<close>

theorem update_adaptive_target_range:
  "0 \<le> targetVolume (update now sp no rg ha ns md ADAPTIVE mv s) \<and>
   targetVolume (update now sp no rg ha ns md ADAPTIVE mv s) \<le> 80"
  by (simp add: update_unfold calculateTargetVolume_adaptive handleHornDucking_frame
      applyVolumeModifiers_clamp clampAdaptive_range)

text \<open>
  Claim C4, as the code has it: an update under manual control with manual level \<open>mv\<close>
  leaves the target level \<open>min f 100\<close>, where \<open>f\<close> is \<open>mv\<close> converted to \<^verbatim>\<open>float\<close>,
  whatever the state before, the clock and the other arguments are. For every level from
  \<open>- 16777216\<close> upwards this is \<open>min mv 100\<close>.
\<close>

theorem update_manual_target:
  "targetVolume (update now sp no rg ha ns md MANUAL mv s) = min (int_to_float (sint mv)) 100 \<and>
   (- 16777216 \<le> sint mv \<longrightarrow>
      targetVolume (update now sp no rg ha ns md MANUAL mv s) = min (real_of_int (sint mv)) 100)"
proof -
  have eq: "targetVolume (update now sp no rg ha ns md MANUAL mv s) = min (int_to_float (sint mv)) 100"
    by (simp add: update_unfold calculateTargetVolume_manual handleHornDucking_frame
        MAX_VOLUME_def)
  have "min (int_to_float (sint mv)) 100 = min (real_of_int (sint mv)) 100"
    if "- 16777216 \<le> sint mv"
    using that by (intro int_to_float_min) simp
  with eq show ?thesis
    by simp
qed

text \<open>Levels 50, 150 and \<open>- 16777216\<close> give 50, 100 and \<open>- 16777216\<close>.\<close>

theorem update_manual_target_witness:
  "targetVolume (update 1 0 30 False False False ECO MANUAL 50 (AdaptiveVolumeControl 0)) = 50 \<and>
   targetVolume (update 1 0 30 False False False ECO MANUAL 150 (AdaptiveVolumeControl 0)) = 100 \<and>
   targetVolume (update 1 0 30 False False False ECO MANUAL (- 16777216) (AdaptiveVolumeControl 0))
     = - 16777216"
  using update_manual_target [of 1 0 30 False False False ECO 50 "AdaptiveVolumeControl 0"]
    update_manual_target [of 1 0 30 False False False ECO 150 "AdaptiveVolumeControl 0"]
    update_manual_target [of 1 0 30 False False False ECO "- 16777216" "AdaptiveVolumeControl 0"]
  by simp

text \<open>
  Claim C4 as stated fails: the manual level \<open>- 16777217\<close> has no binary32 value of its
  own, the conversion rounds it to \<open>- 16777216\<close>, and that is the target, not
  \<open>min (- 16777217) 100\<close>.
\<close>

theorem update_manual_rounding_counterexample:
  "targetVolume (update 1 0 30 False False False ECO MANUAL (- 16777217) (AdaptiveVolumeControl 0))
     = - 16777216 \<and>
   targetVolume (update 1 0 30 False False False ECO MANUAL (- 16777217) (AdaptiveVolumeControl 0))
     \<noteq> min (real_of_int (sint (- 16777217 :: 32 word))) 100"
  by (simp add: update_manual_target_eq MAX_VOLUME_def int_to_float_def floatShift_def
      roundHalfEven_def Let_def)

section \<open>The context snapshot\<close>

text \<open>
  Claim C10, as the code has it: an update overwrites speed, noise, the three flags, mode
  and control policy with its arguments and previous speed with the speed held before.
  The manual level is overwritten only when the new policy is manual; under adaptive
  control the level held before stays.
\<close>

theorem update_snapshot:
  "speed (update now sp no rg ha ns md ct mv s) = sp \<and>
   previousSpeed (update now sp no rg ha ns md ct mv s) = speed s \<and>
   cabinNoise (update now sp no rg ha ns md ct mv s) = no \<and>
   reverseGear (update now sp no rg ha ns md ct mv s) = rg \<and>
   hornActive (update now sp no rg ha ns md ct mv s) = ha \<and>
   navSpeaking (update now sp no rg ha ns md ct mv s) = ns \<and>
   mode (update now sp no rg ha ns md ct mv s) = md \<and>
   controlType (update now sp no rg ha ns md ct mv s) = ct \<and>
   (ct = MANUAL \<longrightarrow> manualVolume (update now sp no rg ha ns md ct mv s) = mv) \<and>
   (ct = ADAPTIVE \<longrightarrow> manualVolume (update now sp no rg ha ns md ct mv s) = manualVolume s)"
  by (simp add: update_unfold calculateTargetVolume_frame handleHornDucking_frame)

theorem update_snapshot_witness:
  "manualVolume (update 1 10 20 False False False ECO MANUAL 7 (AdaptiveVolumeControl 0)) = 7 \<and>
   manualVolume (update 1 10 20 False False False ECO ADAPTIVE 7 (AdaptiveVolumeControl 0)) = 25"
  using update_snapshot [of 1 10 20 False False False ECO MANUAL 7 "AdaptiveVolumeControl 0"]
    update_snapshot [of 1 10 20 False False False ECO ADAPTIVE 7 "AdaptiveVolumeControl 0"]
  by (simp add: AdaptiveVolumeControl_def)

text \<open>
  Claim C10 as stated fails: the first update of a fresh engine, under adaptive control
  and with manual level 7, does not store 7.
\<close>

theorem update_manual_level_counterexample:
  "manualVolume (update 1 10 20 False False False ECO ADAPTIVE 7 (AdaptiveVolumeControl 0)) \<noteq> 7"
  by (simp add: update_unfold calculateTargetVolume_frame handleHornDucking_frame
      AdaptiveVolumeControl_def)

section \<open>The modifier pipeline\<close>

text \<open>
  Claim C6: an update under adaptive control with the reverse-gear flag set multiplies the
  base level by the reverse factor 0.25 (and by the horn-duck factor 0.6 and the navigation
  factor 0.5 where those apply) and by no deceleration factor: the target is the same
  whatever speed the engine held before the call, however large the drop.
\<close>

theorem reverse_skips_deceleration:
  "targetVolume (update now sp no True ha ns md ADAPTIVE mv s) =
     clampAdaptive (baseVolume sp no md
        * (if hornDuckActive (update now sp no True ha ns md ADAPTIVE mv s) then 0.6 else 1)
        * (if ns then 0.5 else 1) * 0.25) \<and>
   targetVolume (update now sp no True ha ns md ADAPTIVE mv (s\<lparr>speed := v\<rparr>))
     = targetVolume (update now sp no True ha ns md ADAPTIVE mv s)"
proof -
  have eq: "targetVolume (update now sp no True ha ns md ADAPTIVE mv t) =
     clampAdaptive (baseVolume sp no md
        * (if hornDuckActive (update now sp no True ha ns md ADAPTIVE mv t) then 0.6 else 1)
        * (if ns then 0.5 else 1) * 0.25)" for t
    unfolding update_adaptive_target
    by (simp add: modifierChain_def update_fields HORN_DUCK_MULTIPLIER_def)
  show ?thesis
    using eq [of s] eq [of "s\<lparr>speed := v\<rparr>"]
    by (simp only: update_hornDuckActive_speed)
qed

text \<open>
  At a drop from 50 to 5 km/h in reverse gear the target is \<open>(25 + 5 + 6) * 0.25 = 9\<close>:
  the braking factor 0.5 is not applied.
\<close>

theorem reverse_skips_deceleration_witness:
  "targetVolume (update 1 5 30 True False False COMFORT ADAPTIVE 0
      (update 0 50 30 False False False COMFORT ADAPTIVE 0 (AdaptiveVolumeControl 0))) = 9"
  using reverse_skips_deceleration
      [of 1 5 30 False False COMFORT 0 "update 0 50 30 False False False COMFORT ADAPTIVE 0 (AdaptiveVolumeControl 0)"]
  by (simp add: update_horn_released update_fields baseVolume_def int_to_float_exact
      clampAdaptive_def MIN_VOLUME_def MAX_ADAPTIVE_VOLUME_def
      AdaptiveVolumeControl_def Let_def)

text \<open>
  The deceleration factor where the subtraction does not overflow. In an update under
  adaptive control with reverse gear off, where \<open>delta = previous speed - current speed\<close>
  fits a 32-bit \<^verbatim>\<open>int\<close>, the running value is multiplied by 0.5 if \<open>delta > 10\<close>, by 0.9 if
  \<open>delta\<close> is between 1 and 10, and by neither if \<open>delta \<le> 0\<close>.
\<close>

lemma deceleration_factor:
  assumes "- (2 ^ 31) \<le> sint (speed s) - sint sp" and "sint (speed s) - sint sp < 2 ^ 31"
  shows "targetVolume (update now sp no False ha ns md ADAPTIVE mv s) =
     clampAdaptive (baseVolume sp no md
        * (if hornDuckActive (update now sp no False ha ns md ADAPTIVE mv s) then 0.6 else 1)
        * (if ns then 0.5 else 1)
        * (if sint (speed s) - sint sp > 10 then 0.5
           else if 1 \<le> sint (speed s) - sint sp \<and> sint (speed s) - sint sp \<le> 10 then 0.9
           else 1))"
  unfolding update_adaptive_target
  using sint_diff_no_overflow [OF assms]
  by (simp add: modifierChain_def update_fields HORN_DUCK_MULTIPLIER_def)

text \<open>After 50 km/h: a drop to 5 gives 18, a drop to 45 gives 36.9, staying at 50 gives 41.\<close>

lemma deceleration_factor_examples:
  "targetVolume (update 1 5 30 False False False COMFORT ADAPTIVE 0
      (update 0 50 30 False False False COMFORT ADAPTIVE 0 (AdaptiveVolumeControl 0))) = 18 \<and>
   targetVolume (update 1 45 30 False False False COMFORT ADAPTIVE 0
      (update 0 50 30 False False False COMFORT ADAPTIVE 0 (AdaptiveVolumeControl 0))) = 36.9 \<and>
   targetVolume (update 1 50 30 False False False COMFORT ADAPTIVE 0
      (update 0 50 30 False False False COMFORT ADAPTIVE 0 (AdaptiveVolumeControl 0))) = 41"
  using deceleration_factor [of "update 0 50 30 False False False COMFORT ADAPTIVE 0 (AdaptiveVolumeControl 0)" 5
            1 30 False False COMFORT 0]
    deceleration_factor [of "update 0 50 30 False False False COMFORT ADAPTIVE 0 (AdaptiveVolumeControl 0)" 45
            1 30 False False COMFORT 0]
    deceleration_factor [of "update 0 50 30 False False False COMFORT ADAPTIVE 0 (AdaptiveVolumeControl 0)" 50
            1 30 False False COMFORT 0]
  by (simp add: update_horn_released update_fields baseVolume_def int_to_float_exact
      clampAdaptive_def MIN_VOLUME_def MAX_ADAPTIVE_VOLUME_def
      AdaptiveVolumeControl_def Let_def)

text \<open>
  Claim C7 on the code. \<^verbatim>\<open>speedDiff\<close> is computed in \<^verbatim>\<open>int\<close> and wraps around. With
  previous speed \<open>- 2147483648\<close> and new speed 1 the speed rises, \<open>delta\<close> is
  \<open>- 2147483649\<close>, yet \<^verbatim>\<open>speedDiff\<close> is 2147483647 and the braking factor is applied: the
  target is 15, where no factor gives 30. With previous speed 2147483647 and new speed
  \<open>- 1\<close> the drop is 2147483648, yet \<^verbatim>\<open>speedDiff\<close> is negative and the mild factor is
  applied: the target is 22.5, where the braking factor gives 12.5. The previous speed is
  set by an update in reverse gear, which does not subtract.
\<close>

theorem deceleration_overflow:
  "sint (previousSpeed (update 2 1 0 False False False COMFORT ADAPTIVE 0
      (update 1 (- 2147483648) 0 True False False COMFORT ADAPTIVE 0 (AdaptiveVolumeControl 0))))
     - sint (1 :: cint) = - 2147483649 \<and>
   targetVolume (update 2 1 0 False False False COMFORT ADAPTIVE 0
      (update 1 (- 2147483648) 0 True False False COMFORT ADAPTIVE 0 (AdaptiveVolumeControl 0)))
     = 15 \<and>
   clampAdaptive (baseVolume 1 0 COMFORT) = 30 \<and>
   sint (previousSpeed (update 2 (- 1) 0 False False False COMFORT ADAPTIVE 0
      (update 1 2147483647 0 True False False COMFORT ADAPTIVE 0 (AdaptiveVolumeControl 0))))
     - sint (- 1 :: cint) = 2147483648 \<and>
   targetVolume (update 2 (- 1) 0 False False False COMFORT ADAPTIVE 0
      (update 1 2147483647 0 True False False COMFORT ADAPTIVE 0 (AdaptiveVolumeControl 0)))
     = 22.5 \<and>
   clampAdaptive (baseVolume (- 1) 0 COMFORT * 0.5) = 12.5"
  by (simp add: update_adaptive_target update_horn_released update_fields modifierChain_def
      baseVolume_def int_to_float_exact clampAdaptive_def MIN_VOLUME_def MAX_ADAPTIVE_VOLUME_def
      AdaptiveVolumeControl_def Let_def)

text \<open>
  Claim C8: when, in an update under adaptive control with the navigation flag set, ducking
  is active, the value before the final clamp is the value the same state gives with
  ducking and navigation both off, multiplied by 0.6 and by 0.5. So the target is the clamp
  of that product, and it is the target without the two conditions times 0.6 times 0.5
  whenever that target is below the ceiling 80.
\<close>

theorem duck_and_navigation_compound:
  assumes s': "s' = update now sp no rg ha True md ADAPTIVE mv s"
    and u: "u = s'\<lparr>hornDuckActive := False, navSpeaking := False\<rparr>"
    and duck: "hornDuckActive s'"
  shows "targetVolume (calculateTargetVolume u) = clampAdaptive (modifierChain u (baseVolume sp no md)) \<and>
         targetVolume s' = clampAdaptive (modifierChain u (baseVolume sp no md) * 0.6 * 0.5) \<and>
         (targetVolume (calculateTargetVolume u) < 80 \<longrightarrow>
            targetVolume s' = targetVolume (calculateTargetVolume u) * 0.6 * 0.5)"
proof -
  have flags: "s' = s'\<lparr>hornDuckActive := True, navSpeaking := True\<rparr>"
    using duck by (simp add: s' update_fields)
  have uf: "controlType u = ADAPTIVE" "speed u = sp" "cabinNoise u = no" "mode u = md"
    by (simp_all add: u s' update_fields)
  have unducked: "targetVolume (calculateTargetVolume u)
      = clampAdaptive (modifierChain u (baseVolume sp no md))"
    by (simp add: calculateTargetVolume_adaptive uf applyVolumeModifiers_clamp)
  have "modifierChain s' (baseVolume sp no md)
      = modifierChain (s'\<lparr>hornDuckActive := True, navSpeaking := True\<rparr>) (baseVolume sp no md)"
    using flags by simp
  also have "\<dots> = modifierChain u (baseVolume sp no md) * 0.6 * 0.5"
    unfolding u by (rule modifierChain_duck_nav)
  finally have chain: "modifierChain s' (baseVolume sp no md)
      = modifierChain u (baseVolume sp no md) * 0.6 * 0.5" .
  have "targetVolume s' = clampAdaptive (modifierChain s' (baseVolume sp no md))"
    unfolding s' by (rule update_adaptive_target)
  then have both: "targetVolume s' = clampAdaptive (modifierChain u (baseVolume sp no md) * 0.6 * 0.5)"
    by (simp only: chain)
  have "targetVolume s' = targetVolume (calculateTargetVolume u) * 0.6 * 0.5"
    if "targetVolume (calculateTargetVolume u) < 80"
  proof -
    have "clampAdaptive (modifierChain u (baseVolume sp no md) * (0.6 * 0.5))
        = clampAdaptive (modifierChain u (baseVolume sp no md)) * (0.6 * 0.5)"
      using that unfolding unducked by (intro clampAdaptive_scale) simp_all
    then show ?thesis
      by (simp add: both unducked mult.assoc)
  qed
  with unducked both show ?thesis
    by blast
qed

theorem duck_and_navigation_compound_witness:
  "targetVolume (update 0 50 50 False True True COMFORT ADAPTIVE 0 (AdaptiveVolumeControl 0)) = 13.5 \<and>
   targetVolume (calculateTargetVolume
      ((update 0 50 50 False True True COMFORT ADAPTIVE 0 (AdaptiveVolumeControl 0))
         \<lparr>hornDuckActive := False, navSpeaking := False\<rparr>)) = 45"
  using duck_and_navigation_compound [OF refl refl, of 0 50 50 False True COMFORT 0 "AdaptiveVolumeControl 0"]
  by (simp add: update_horn_pressed update_fields modifierChain_def baseVolume_def int_to_float_exact
      clampAdaptive_def MIN_VOLUME_def MAX_ADAPTIVE_VOLUME_def HORN_DUCK_MULTIPLIER_def
      AdaptiveVolumeControl_def Let_def)

section \<open>Horn ducking\<close>

text \<open>
  Claim C1 on the code. The horn is pressed at clock value 0 and released by the update at
  clock value 1. \<^verbatim>\<open>update\<close> has already stored the new horn flag when it calls
  \<^verbatim>\<open>handleHornDucking\<close>, so the branch for a horn just released is never taken: the
  window start stays 0, the window is found expired, ducking is off and the target is the
  unducked 45. With the release at 0.2 ducking stays on but the start time is still 0,
  and an update at 0.6 ends ducking, 0.4 s after the release.
\<close>

theorem horn_release_does_not_restart_window:
  "hornActive (update 0 50 50 False True False COMFORT ADAPTIVE 0 (AdaptiveVolumeControl 0)) \<and>
   hornDuckStartTime (update 1 50 50 False False False COMFORT ADAPTIVE 0
      (update 0 50 50 False True False COMFORT ADAPTIVE 0 (AdaptiveVolumeControl 0))) = 0 \<and>
   \<not> hornDuckActive (update 1 50 50 False False False COMFORT ADAPTIVE 0
      (update 0 50 50 False True False COMFORT ADAPTIVE 0 (AdaptiveVolumeControl 0))) \<and>
   targetVolume (update 1 50 50 False False False COMFORT ADAPTIVE 0
      (update 0 50 50 False True False COMFORT ADAPTIVE 0 (AdaptiveVolumeControl 0))) = 45 \<and>
   hornDuckActive (update 0.2 50 50 False False False COMFORT ADAPTIVE 0
      (update 0 50 50 False True False COMFORT ADAPTIVE 0 (AdaptiveVolumeControl 0))) \<and>
   hornDuckStartTime (update 0.2 50 50 False False False COMFORT ADAPTIVE 0
      (update 0 50 50 False True False COMFORT ADAPTIVE 0 (AdaptiveVolumeControl 0))) = 0 \<and>
   \<not> hornDuckActive (update 0.6 50 50 False False False COMFORT ADAPTIVE 0
      (update 0.2 50 50 False False False COMFORT ADAPTIVE 0
        (update 0 50 50 False True False COMFORT ADAPTIVE 0 (AdaptiveVolumeControl 0))))"
  by (simp add: update_adaptive_target update_horn_released update_horn_pressed update_fields
      HORN_DUCK_DURATION_def modifierChain_def baseVolume_def int_to_float_exact clampAdaptive_def
      MIN_VOLUME_def MAX_ADAPTIVE_VOLUME_def Let_def)

section \<open>Convergence of the current level\<close>

text \<open>
  In binary32 the loop does end for ordinary levels: from 25 towards the target 45 it
  takes eleven steps and \<^verbatim>\<open>printAndSmooth\<close> returns with the current level 45.
\<close>

lemma printAndSmooth32_returns:
  "map_option currentVolume (printAndSmooth32
      (update 0 50 50 False False False COMFORT ADAPTIVE 0 (AdaptiveVolumeControl 0))) = Some 45"
proof -
  define s where "s = update 0 50 50 False False False COMFORT ADAPTIVE 0 (AdaptiveVolumeControl 0)"
  have t: "targetVolume s = 45"
    by (simp add: s_def update_adaptive_target update_horn_released update_fields
        modifierChain_def baseVolume_def int_to_float_exact clampAdaptive_def MIN_VOLUME_def
        MAX_ADAPTIVE_VOLUME_def AdaptiveVolumeControl_def Let_def)
  have c: "s = s\<lparr>currentVolume := 25\<rparr>"
    by (simp add: s_def update_fields AdaptiveVolumeControl_def DEFAULT_VOLUME_def)
  have "smoothLoop32 (s\<lparr>currentVolume := 25\<rparr>)
      = smoothLoop32 (s\<lparr>currentVolume := 11692811 / 262144\<rparr>)"
    using smoothLoop32_follows [OF conjunct1 [OF trace_done] t] by simp
  also have "\<dots> = Some (s\<lparr>currentVolume := 11692811 / 262144\<rparr>)"
    using conjunct2 [OF trace_done] by (subst smoothLoop32.simps) (simp add: t)
  finally have "smoothLoop32 s = Some (s\<lparr>currentVolume := 11692811 / 262144\<rparr>)"
    using c by simp
  then show ?thesis
    unfolding s_def [symmetric] by (simp add: printAndSmooth32_def t)
qed

text \<open>
  Claim C5 on the code. A fresh engine is given the manual level \<open>- 8388609\<close>, so the
  target is \<open>- 8388609\<close> and the current level 25. In binary32 the loop of
  \<^verbatim>\<open>printAndSmooth\<close> takes 45 steps to the current level \<open>- 8388608\<close>. There the gap is 1,
  above 0.5, and the next step adds \<open>- 0.3\<close>, which rounding to a significand of 24
  bits takes away again: the step changes nothing, the gap is not reduced, the loop
  never ends and the current level is never set to the target.
\<close>

theorem printAndSmooth32_never_returns:
  "targetVolume (update 1 0 30 False False False ECO MANUAL (- 8388609) (AdaptiveVolumeControl 0))
     = - 8388609 \<and>
   currentVolume (update 1 0 30 False False False ECO MANUAL (- 8388609) (AdaptiveVolumeControl 0))
     = 25 \<and>
   smoothLoop32 (update 1 0 30 False False False ECO MANUAL (- 8388609) (AdaptiveVolumeControl 0))
     = smoothLoop32 ((update 1 0 30 False False False ECO MANUAL (- 8388609)
          (AdaptiveVolumeControl 0))\<lparr>currentVolume := - 8388608\<rparr>) \<and>
   gapOpen32 (- 8388608) (- 8388609) \<and>
   smoothVolumeTransition32 ((update 1 0 30 False False False ECO MANUAL (- 8388609)
          (AdaptiveVolumeControl 0))\<lparr>currentVolume := - 8388608\<rparr>)
     = (update 1 0 30 False False False ECO MANUAL (- 8388609)
          (AdaptiveVolumeControl 0))\<lparr>currentVolume := - 8388608\<rparr> \<and>
   printAndSmooth32 (update 1 0 30 False False False ECO MANUAL (- 8388609)
      (AdaptiveVolumeControl 0)) = None"
proof -
  define s where "s = update 1 0 30 False False False ECO MANUAL (- 8388609) (AdaptiveVolumeControl 0)"
  have t: "targetVolume s = - 8388609"
    by (simp add: s_def update_manual_target_eq MAX_VOLUME_def int_to_float_exact)
  have c25: "currentVolume s = 25"
    by (simp add: s_def update_fields AdaptiveVolumeControl_def DEFAULT_VOLUME_def)
  then have c: "s = s\<lparr>currentVolume := 25\<rparr>"
    by simp
  have "smoothLoop32 (s\<lparr>currentVolume := 25\<rparr>) = smoothLoop32 (s\<lparr>currentVolume := - 8388608\<rparr>)"
    using smoothLoop32_follows [OF trace_stuck t] by simp
  then have reach: "smoothLoop32 s = smoothLoop32 (s\<lparr>currentVolume := - 8388608\<rparr>)"
    using c by simp
  have still: "smoothVolumeTransition32 (s\<lparr>currentVolume := - 8388608\<rparr>)
      = s\<lparr>currentVolume := - 8388608\<rparr>"
    using stuck_state by (simp add: smoothVolumeTransition32_def t)
  have "smoothLoop32 (s\<lparr>currentVolume := - 8388608\<rparr>) = None"
    using stuck_state by (intro smoothLoop32_stuck) (simp_all add: t)
  with reach have "printAndSmooth32 s = None"
    by (simp add: printAndSmooth32_def)
  with t c25 reach still stuck_state show ?thesis
    unfolding s_def by simp
qed

section \<open>The range of the two levels\<close>

text \<open>
  Claim C2, as the code has it. After the constructor and any sequence of updates,
  smoothing steps and \<^verbatim>\<open>printAndSmooth\<close> calls: under adaptive policy the target lies in
  \<open>[0, 80]\<close>; under manual policy the target is at most 100; the current level is at
  most 100, and at most 80 when no call of the sequence was an update under manual
  policy; and both levels are at least 0 when no update of the sequence passed a
  negative manual level.
\<close>

theorem levels_invariant:
  "(controlType (run (AdaptiveVolumeControl t0) cs) = ADAPTIVE \<longrightarrow>
      0 \<le> targetVolume (run (AdaptiveVolumeControl t0) cs) \<and>
      targetVolume (run (AdaptiveVolumeControl t0) cs) \<le> 80) \<and>
   (controlType (run (AdaptiveVolumeControl t0) cs) = MANUAL \<longrightarrow>
      targetVolume (run (AdaptiveVolumeControl t0) cs) \<le> 100) \<and>
   currentVolume (run (AdaptiveVolumeControl t0) cs) \<le> 100 \<and>
   (list_all adaptiveOnly cs \<longrightarrow> currentVolume (run (AdaptiveVolumeControl t0) cs) \<le> 80) \<and>
   (list_all manualNonneg cs \<longrightarrow>
      0 \<le> targetVolume (run (AdaptiveVolumeControl t0) cs) \<and>
      0 \<le> currentVolume (run (AdaptiveVolumeControl t0) cs))"
proof -
  let ?s = "run (AdaptiveVolumeControl t0) cs"
  have "upperInv (AdaptiveVolumeControl t0)"
    by (simp add: upperInv_def AdaptiveVolumeControl_def DEFAULT_VOLUME_def)
  then have upper: "upperInv ?s"
    by (rule run_invariant) (rule perform_upperInv)
  have low: "0 \<le> targetVolume ?s \<and> 0 \<le> currentVolume ?s" if "list_all manualNonneg cs"
  proof (rule run_invariant)
    show "0 \<le> targetVolume (AdaptiveVolumeControl t0) \<and> 0 \<le> currentVolume (AdaptiveVolumeControl t0)"
      by (simp add: AdaptiveVolumeControl_def DEFAULT_VOLUME_def)
  next
    fix c and s :: avc
    assume "c \<in> set cs" and inv: "0 \<le> targetVolume s \<and> 0 \<le> currentVolume s"
    with that have "manualNonneg c"
      by (simp add: list_all_iff)
    with inv show "0 \<le> targetVolume (perform c s) \<and> 0 \<le> currentVolume (perform c s)"
      by (rule perform_nonneg)
  qed
  have ad: "targetVolume ?s \<le> 80 \<and> currentVolume ?s \<le> 80" if "list_all adaptiveOnly cs"
  proof (rule run_invariant)
    show "targetVolume (AdaptiveVolumeControl t0) \<le> 80 \<and> currentVolume (AdaptiveVolumeControl t0) \<le> 80"
      by (simp add: AdaptiveVolumeControl_def DEFAULT_VOLUME_def)
  next
    fix c and s :: avc
    assume "c \<in> set cs" and inv: "targetVolume s \<le> 80 \<and> currentVolume s \<le> 80"
    with that have "adaptiveOnly c"
      by (simp add: list_all_iff)
    with inv show "targetVolume (perform c s) \<le> 80 \<and> currentVolume (perform c s) \<le> 80"
      by (rule perform_adaptive_upper)
  qed
  from upper low ad show ?thesis
    unfolding upperInv_def by blast
qed

theorem levels_invariant_witness:
  "targetVolume (run (AdaptiveVolumeControl 0)
      [Update 1 0 30 False False False ECO MANUAL 50, PrintAndSmooth]) \<le> 100 \<and>
   0 \<le> currentVolume (run (AdaptiveVolumeControl 0)
      [Update 1 0 30 False False False ECO MANUAL 50, PrintAndSmooth]) \<and>
   0 \<le> targetVolume (run (AdaptiveVolumeControl 0)
      [Update 1 50 50 False False False COMFORT ADAPTIVE 0, SmoothStep]) \<and>
   currentVolume (run (AdaptiveVolumeControl 0)
      [Update 1 50 50 False False False COMFORT ADAPTIVE 0, SmoothStep]) \<le> 80"
  using levels_invariant [of 0 "[Update 1 0 30 False False False ECO MANUAL 50, PrintAndSmooth]"]
    levels_invariant [of 0 "[Update 1 50 50 False False False COMFORT ADAPTIVE 0, SmoothStep]"]
  by (simp add: update_fields printAndSmooth_fields smoothVolumeTransition_fields)

text \<open>
  Claim C2 as stated fails in two ways. After a manual level of 100 has been reached and
  the policy returns to adaptive, the current level is still 100, above the adaptive
  ceiling 80. And an update under manual policy with level \<open>-5\<close> leaves the target at
  \<open>-5\<close>, below the floor.
\<close>

theorem levels_range_counterexample:
  "controlType (run (AdaptiveVolumeControl 0)
      [Update 1 0 30 False False False ECO MANUAL 100, PrintAndSmooth,
       Update 2 50 50 False False False COMFORT ADAPTIVE 0]) = ADAPTIVE \<and>
   currentVolume (run (AdaptiveVolumeControl 0)
      [Update 1 0 30 False False False ECO MANUAL 100, PrintAndSmooth,
       Update 2 50 50 False False False COMFORT ADAPTIVE 0]) = 100 \<and>
   controlType (run (AdaptiveVolumeControl 0)
      [Update 1 0 30 False False False ECO MANUAL (- 5)]) = MANUAL \<and>
   targetVolume (run (AdaptiveVolumeControl 0)
      [Update 1 0 30 False False False ECO MANUAL (- 5)]) = - 5"
  by (simp add: update_fields printAndSmooth_fields update_manual_target_eq MAX_VOLUME_def
      int_to_float_exact)

end
